theory Spec2Isabelle
  imports Main
begin

section \<open>Python values and their text\<close>

text \<open>
  The adapter of \<^verbatim>\<open>service_implementations/model/bigquery_base.py\<close> formats Python
  values into SQL text. A value is one of the scalars a training option can hold, or the
  list of column names that \<^verbatim>\<open>fit\<close> stores under \<^verbatim>\<open>input_label_cols\<close>.
  A \<open>char\<close> stands for a code point below 256. A float is carried as the text that
  \<^verbatim>\<open>str()\<close> prints for it: the digits of a float are outside this development.
\<close>

datatype pyval =
    PNone
  | PBool bool
  | PInt int
  | PFloat string
  | PStr string
  | PList "string list"

datatype error =
    AttributeError string
  | KeyError string
  | IndexError
  | TypeError
  | JobError string

text \<open>\<^verbatim>\<open>isinstance(value, str)\<close>\<close>

fun isinstance_str :: "pyval \<Rightarrow> bool" where
  "isinstance_str (PStr s) = True"
| "isinstance_str v = False"

text \<open>\<^verbatim>\<open>str.lower()\<close> on code points below 256.\<close>

definition lower_char :: "char \<Rightarrow> char" where
  "lower_char c =
     (let n = (of_char c :: nat)
      in if (65 \<le> n \<and> n \<le> 90) \<or> (192 \<le> n \<and> n \<le> 222 \<and> n \<noteq> 215)
         then char_of (n + 32) else c)"

definition lower :: "string \<Rightarrow> string" where
  "lower s = map lower_char s"

text \<open>\<^verbatim>\<open>sep.join(parts)\<close>\<close>

fun join :: "string \<Rightarrow> string list \<Rightarrow> string" where
  "join sep [] = []"
| "join sep [x] = x"
| "join sep (x # y # ys) = x @ sep @ join sep (y # ys)"

text \<open>The decimal text of an integer.\<close>

definition digit_char :: "nat \<Rightarrow> char" where
  "digit_char d = char_of (48 + d)"

fun digits :: "nat \<Rightarrow> string" where
  "digits n = (if n < 10 then [digit_char n] else digits (n div 10) @ [digit_char (n mod 10)])"

definition str_int :: "int \<Rightarrow> string" where
  "str_int i = (if i < 0 then CHR ''-'' # digits (nat (- i)) else digits (nat i))"

text \<open>
  \<^verbatim>\<open>repr\<close> of a string: single quotes, unless the string holds a single quote and no
  double quote; the quote and the backslash are escaped, tab, newline and carriage return
  are written with their letters, and every other code point that is not printable is
  written as \<^verbatim>\<open>\xhh\<close>.
\<close>

definition hex_digit :: "nat \<Rightarrow> char" where
  "hex_digit d = (if d < 10 then char_of (48 + d) else char_of (87 + d))"

definition repr_char :: "char \<Rightarrow> char \<Rightarrow> string" where
  "repr_char q c =
     (let n = (of_char c :: nat)
      in if c = q \<or> c = CHR 0x5C then [CHR 0x5C, c]
         else if n = 9 then [CHR 0x5C, CHR ''t'']
         else if n = 10 then [CHR 0x5C, CHR ''n'']
         else if n = 13 then [CHR 0x5C, CHR ''r'']
         else if n < 32 \<or> n = 127 \<or> (128 \<le> n \<and> n \<le> 160) \<or> n = 173
           then [CHR 0x5C, CHR ''x'', hex_digit (n div 16), hex_digit (n mod 16)]
         else [c])"

definition repr_str :: "string \<Rightarrow> string" where
  "repr_str s =
     (let q = (if CHR 0x27 \<in> set s \<and> CHR 0x22 \<notin> set s then CHR 0x22 else CHR 0x27)
      in q # concat (map (repr_char q) s) @ [q])"

text \<open>\<^verbatim>\<open>str(value)\<close>, which is what an f-string field \<^verbatim>\<open>{value}\<close> prints.\<close>

fun str :: "pyval \<Rightarrow> string" where
  "str PNone = ''None''"
| "str (PBool b) = (if b then ''True'' else ''False'')"
| "str (PInt i) = str_int i"
| "str (PFloat t) = t"
| "str (PStr s) = s"
| "str (PList xs) = ''['' @ join '', '' (map repr_str xs) @ '']''"

section \<open>Dictionaries\<close>

text \<open>
  A Python \<^verbatim>\<open>dict\<close> keeps its items in insertion order, and \<^verbatim>\<open>fit\<close> prints them
  in that order, so the configuration mapping is an association list. Assigning to a key
  that is present replaces its value in place; assigning to a new key appends the item.
\<close>

type_synonym dict = "(string \<times> pyval) list"

fun dict_get :: "dict \<Rightarrow> string \<Rightarrow> pyval option" where
  "dict_get [] k = None"
| "dict_get ((k', v) # d) k = (if k' = k then Some v else dict_get d k)"

fun dict_set :: "dict \<Rightarrow> string \<Rightarrow> pyval \<Rightarrow> dict" where
  "dict_set [] k v = [(k, v)]"
| "dict_set ((k', v') # d) k v = (if k' = k then (k, v) # d else (k', v') # dict_set d k v)"

definition keys :: "dict \<Rightarrow> string list" where
  "keys d = map fst d"

section \<open>Collaborators\<close>

text \<open>
  Modelled from the spec: the Location Descriptor (\<^verbatim>\<open>helpers.bigquery_location\<close>, a
  module other than the adapter's) is an immutable value with the column names,
  the identifier column, the table name, an optional ordering and an optional row limit.
  Its constructor takes them in this order and stores them.
\<close>

record location =
  columns :: "string list"
  id_column :: string
  table :: string
  order :: "string option"
  limit :: "int option"

definition BigQueryLocation ::
  "string list \<Rightarrow> string \<Rightarrow> string \<Rightarrow> string option \<Rightarrow> int option \<Rightarrow> location" where
  "BigQueryLocation cs i t ord lim =
     \<lparr>columns = cs, id_column = i, table = t, order = ord, limit = lim\<rparr>"

text \<open>
  Modelled from the spec: a job handle exposes the rows of its result and the destination
  table where the result was materialized; a row of the training diagnostics has the named
  fields that \<^verbatim>\<open>get_train_metrics\<close> reads.
\<close>

record table_reference =
  dest_project :: string
  dataset_id :: string
  table_id :: string

record row =
  iteration :: pyval
  loss :: pyval
  eval_loss :: pyval
  duration_ms :: pyval
  learning_rate :: pyval

record query_job =
  result :: "row list"
  destination :: table_reference

text \<open>
  The parts of the collaborators that the adapter calls and whose code is elsewhere are
  parameters: the text \<^verbatim>\<open>get_select_query(include_id)\<close> renders for a location, the
  row limit the location's constructor takes when none is given, and the outcome of a job,
  which may depend on the statement, on the job-id prefix and on the jobs submitted before.
\<close>

record env =
  get_select_query :: "location \<Rightarrow> bool \<Rightarrow> string"
  limit_default :: "int option"
  job_outcome :: "(string \<times> string) list \<Rightarrow> string \<Rightarrow> string \<Rightarrow> error + query_job"

text \<open>The warehouse, as far as the adapter can change it: the jobs submitted so far,
  each with its statement and its job-id prefix.\<close>

record warehouse =
  submitted :: "(string \<times> string) list"

text \<open>
  Modelled from the spec: \<^verbatim>\<open>run_query_and_wait\<close> (\<^verbatim>\<open>mixin.bigquery_mixin\<close>) submits
  the statement as a job with the given prefix, waits, and returns the job handle or
  raises the job's error.
\<close>

definition run_query_and_wait ::
  "env \<Rightarrow> warehouse \<Rightarrow> string \<Rightarrow> string \<Rightarrow> (error + query_job) \<times> warehouse" where
  "run_query_and_wait E w sql prefix =
     (job_outcome E (submitted w) sql prefix, w\<lparr>submitted := submitted w @ [(sql, prefix)]\<rparr>)"

section \<open>The adapter\<close>

text \<open>
  \<^verbatim>\<open>__init__\<close> sets \<^verbatim>\<open>project\<close> and \<^verbatim>\<open>dataset\<close>; the other attributes exist only
  once \<^verbatim>\<open>instantiate_model\<close> has set them, so each is optional and reading one that is
  \<open>None\<close> raises \<^verbatim>\<open>AttributeError\<close>. The \<^verbatim>\<open>client\<close> handle is never read by the
  adapter's own code; what the warehouse answers is in \<open>env\<close>.
\<close>

record adapter =
  project :: pyval
  dataset :: pyval
  model_id :: "pyval option"
  model_version :: "pyval option"
  model_id_version :: "string option"
  sql_model_path :: "string option"
  kwargs :: "dict option"

definition init :: "pyval \<Rightarrow> pyval \<Rightarrow> adapter" where
  "init p d =
     \<lparr>project = p, dataset = d, model_id = None, model_version = None,
      model_id_version = None, sql_model_path = None, kwargs = None\<rparr>"

text \<open>The class attributes: the statement templates with their fields filled in, and
  the job-id prefix.\<close>

definition create_model_query :: "string \<Rightarrow> string \<Rightarrow> string \<Rightarrow> string \<Rightarrow> string" where
  "create_model_query path options train_query eval_data =
     ''\<newline>CREATE OR REPLACE MODEL `'' @ path @ ''`\<newline>OPTIONS (\<newline>'' @ options @
     '')\<newline>AS (\<newline>    WITH train_query AS ('' @ train_query @
     ''),\<newline>         eval_data AS ('' @ eval_data @
     '')\<newline>    SELECT *, false as is_eval FROM train_query UNION ALL \<newline>'' @
     ''    SELECT *, true as is_eval FROM eval_data\<newline>)\<newline>''"

definition predict_query :: "string \<Rightarrow> string \<Rightarrow> string \<Rightarrow> string \<Rightarrow> string" where
  "predict_query idc target path sub =
     ''\<newline>SELECT '' @ idc @ '', predicted_'' @ target @ '' FROM ML.PREDICT(MODEL `'' @ path @
     ''`, ('' @ sub @ ''))\<newline>''"

definition train_metric_query :: "string \<Rightarrow> string" where
  "train_metric_query path =
     ''\<newline>SELECT * FROM ML.TRAINING_INFO(MODEL `'' @ path @ ''`) ORDER BY iteration\<newline>    ''"

definition job_id_prefix :: string where
  "job_id_prefix = ''mlflow_model_''"

subsection \<open>instantiate_model\<close>

definition instantiate_model ::
  "adapter \<Rightarrow> warehouse \<Rightarrow> pyval \<Rightarrow> pyval \<Rightarrow> dict \<Rightarrow> (error + unit) \<times> adapter \<times> warehouse" where
  "instantiate_model self w mid mver kw =
     (let miv = str mid @ ''_'' @ str mver;
          path = str (project self) @ ''.'' @ str (dataset self) @ ''.'' @ miv;
          self1 = self\<lparr>model_id := Some mid, model_version := Some mver,
                       model_id_version := Some miv, sql_model_path := Some path,
                       kwargs := Some kw\<rparr>
      in if \<not> (lower ''data_split_method'' \<in> set (map lower (keys kw)))
         then (Inr (),
               self1\<lparr>kwargs := Some (dict_set (dict_set kw ''data_split_method'' (PStr ''CUSTOM''))
                                          ''data_split_col'' (PStr ''is_eval''))\<rparr>,
               w)
         else (Inr (), self1, w))"

subsection \<open>fit\<close>

text \<open>One item of the options clause: the value between single quotes when it is a
  string, bare otherwise.\<close>

definition render_option :: "string \<times> pyval \<Rightarrow> string" where
  "render_option kv =
     (case kv of (key, value) \<Rightarrow>
        key @ ''='' @ (if isinstance_str value then [CHR 0x27] else [])
            @ str value @ (if isinstance_str value then [CHR 0x27] else []))"

definition render_options :: "dict \<Rightarrow> string" where
  "render_options d = join '',\<newline>'' (map render_option d)"

definition fit ::
  "env \<Rightarrow> adapter \<Rightarrow> warehouse \<Rightarrow> location \<Rightarrow> location \<Rightarrow> location \<Rightarrow> location
     \<Rightarrow> (error + unit) \<times> adapter \<times> warehouse" where
  "fit E self w train_x train_y eval_x eval_y =
     (case kwargs self of
        None \<Rightarrow> (Inl (AttributeError ''kwargs''), self, w)
      | Some kw \<Rightarrow>
          let kw1 = dict_set kw ''input_label_cols'' (PList (columns train_y));
              self1 = self\<lparr>kwargs := Some kw1\<rparr>;
              options = render_options kw1;
              train_data_location =
                BigQueryLocation (columns train_x @ columns train_y) (id_column train_x)
                  (table train_x) (order train_x) (limit train_x);
              eval_data_location =
                BigQueryLocation (columns eval_x @ columns eval_y) (id_column eval_x)
                  (table eval_x) (order eval_x) (limit eval_x)
          in (case sql_model_path self1 of
                None \<Rightarrow> (Inl (AttributeError ''sql_model_path''), self1, w)
              | Some path \<Rightarrow>
                  let q = create_model_query path options
                            (get_select_query E train_data_location False)
                            (get_select_query E eval_data_location False)
                  in (case run_query_and_wait E w q job_id_prefix of
                        (Inl e, w1) \<Rightarrow> (Inl e, self1, w1)
                      | (Inr query_job, w1) \<Rightarrow> (Inr (), self1, w1))))"

subsection \<open>predict\<close>

text \<open>\<^verbatim>\<open>value[0]\<close>: the first name of a list, the first character of a string.\<close>

fun subscript0 :: "pyval \<Rightarrow> error + pyval" where
  "subscript0 (PList []) = Inl IndexError"
| "subscript0 (PList (x # xs)) = Inr (PStr x)"
| "subscript0 (PStr []) = Inl IndexError"
| "subscript0 (PStr (c # cs)) = Inr (PStr [c])"
| "subscript0 v = Inl TypeError"

definition predict ::
  "env \<Rightarrow> adapter \<Rightarrow> warehouse \<Rightarrow> location \<Rightarrow> (error + location) \<times> adapter \<times> warehouse" where
  "predict E self w data =
     (case kwargs self of
        None \<Rightarrow> (Inl (AttributeError ''kwargs''), self, w)
      | Some kw \<Rightarrow>
          (case dict_get kw ''input_label_cols'' of
             None \<Rightarrow> (Inl (KeyError ''input_label_cols''), self, w)
           | Some cols \<Rightarrow>
               (case subscript0 cols of
                  Inl e \<Rightarrow> (Inl e, self, w)
                | Inr target_column \<Rightarrow>
                    (case sql_model_path self of
                       None \<Rightarrow> (Inl (AttributeError ''sql_model_path''), self, w)
                     | Some path \<Rightarrow>
                         let q = predict_query (id_column data) (str target_column) path
                                   (get_select_query E data True)
                         in (case run_query_and_wait E w q job_id_prefix of
                               (Inl e, w1) \<Rightarrow> (Inl e, self, w1)
                             | (Inr query_job, w1) \<Rightarrow>
                                 let d = destination query_job;
                                     destination_location =
                                       BigQueryLocation [''predicted_'' @ str target_column]
                                         (id_column data)
                                         (dest_project d @ ''.'' @ dataset_id d @ ''.'' @ table_id d)
                                         (order data) (limit_default E)
                                 in (Inr destination_location, self, w1))))))"

subsection \<open>save and load\<close>

definition save :: "adapter \<Rightarrow> warehouse \<Rightarrow> string \<Rightarrow> (error + unit) \<times> adapter \<times> warehouse" where
  "save self w folder_path = (Inr (), self, w)"

definition load :: "adapter \<Rightarrow> warehouse \<Rightarrow> string \<Rightarrow> (error + unit) \<times> adapter \<times> warehouse" where
  "load self w folder_path = (Inr (), self, w)"

subsection \<open>get_train_metrics\<close>

text \<open>One element of the returned list: the dictionary with the items \<^verbatim>\<open>metrics\<close>
  and \<^verbatim>\<open>step\<close>; the inner dictionary keeps its four items in the order written.\<close>

record metric_struct =
  metrics :: dict
  step :: pyval

definition row_metric :: "row \<Rightarrow> dict" where
  "row_metric r =
     [(''loss'', loss r), (''eval_loss'', eval_loss r),
      (''duration_ms'', duration_ms r), (''learning_rate'', learning_rate r)]"

text \<open>The loop over the rows, appending to \<^verbatim>\<open>metrics_struct_list\<close>.\<close>

fun metrics_loop :: "row list \<Rightarrow> metric_struct list \<Rightarrow> metric_struct list" where
  "metrics_loop [] metrics_struct_list = metrics_struct_list"
| "metrics_loop (r # rows) metrics_struct_list =
     metrics_loop rows (metrics_struct_list @ [\<lparr>metrics = row_metric r, step = iteration r\<rparr>])"

definition get_train_metrics ::
  "env \<Rightarrow> adapter \<Rightarrow> warehouse \<Rightarrow> (error + metric_struct list) \<times> adapter \<times> warehouse" where
  "get_train_metrics E self w =
     (case sql_model_path self of
        None \<Rightarrow> (Inl (AttributeError ''sql_model_path''), self, w)
      | Some path \<Rightarrow>
          (case run_query_and_wait E w (train_metric_query path) job_id_prefix of
             (Inl e, w1) \<Rightarrow> (Inl e, self, w1)
           | (Inr query_job, w1) \<Rightarrow> (Inr (metrics_loop (result query_job) []), self, w1)))"

section \<open>Example values\<close>

text \<open>Concrete collaborators, adapters and locations on which the theorems below are
  exercised. The select statement of \<open>example_env\<close> is one possible rendering.\<close>

definition example_rows :: "row list" where
  "example_rows =
     [\<lparr>iteration = PInt 0, loss = PFloat ''0.9'', eval_loss = PFloat ''1.1'',
       duration_ms = PInt 1200, learning_rate = PFloat ''0.1''\<rparr>,
      \<lparr>iteration = PInt 1, loss = PFloat ''0.5'', eval_loss = PFloat ''0.7'',
       duration_ms = PInt 900, learning_rate = PFloat ''0.1''\<rparr>]"

definition example_job :: query_job where
  "example_job =
     \<lparr>result = example_rows,
      destination = \<lparr>dest_project = ''proj'', dataset_id = ''tmp'', table_id = ''anon7''\<rparr>\<rparr>"

definition example_env :: env where
  "example_env =
     \<lparr>get_select_query =
        (\<lambda>l include_id. ''SELECT '' @ (if include_id then id_column l @ '', '' else [])
                          @ join '', '' (columns l) @ '' FROM '' @ table l),
      limit_default = None,
      job_outcome = (\<lambda>history sql prefix. Inr example_job)\<rparr>"

definition example_warehouse :: warehouse where
  "example_warehouse = \<lparr>submitted = []\<rparr>"

definition example_options :: dict where
  "example_options =
     [(''model_type'', PStr ''boosted_tree''), (''max_iterations'', PInt 50),
      (''data_split_method'', PStr ''CUSTOM''), (''data_split_col'', PStr ''is_eval'')]"

definition example_adapter :: adapter where
  "example_adapter =
     \<lparr>project = PStr ''proj'', dataset = PStr ''ds'', model_id = Some (PStr ''churn''),
      model_version = Some (PInt 3), model_id_version = Some ''churn_3'',
      sql_model_path = Some ''proj.ds.churn_3'', kwargs = Some example_options\<rparr>"

definition example_fitted :: adapter where
  "example_fitted =
     example_adapter\<lparr>kwargs := Some (example_options @ [(''input_label_cols'', PList [''y''])])\<rparr>"

definition example_train_x :: location where
  "example_train_x =
     \<lparr>columns = [''a'', ''b''], id_column = ''id'', table = ''proj.ds.train'',
      order = None, limit = None\<rparr>"

definition example_train_y :: location where
  "example_train_y =
     \<lparr>columns = [''y''], id_column = ''id'', table = ''proj.ds.train'',
      order = None, limit = None\<rparr>"

definition example_eval_x :: location where
  "example_eval_x =
     \<lparr>columns = [''a'', ''b''], id_column = ''id'', table = ''proj.ds.eval'',
      order = Some ''id'', limit = Some 100\<rparr>"

definition example_eval_y :: location where
  "example_eval_y =
     \<lparr>columns = [''y''], id_column = ''id'', table = ''proj.ds.eval'',
      order = Some ''id'', limit = Some 100\<rparr>"

definition example_fitted_warehouse :: warehouse where
  "example_fitted_warehouse =
     \<lparr>submitted =
        [(''\<newline>CREATE OR REPLACE MODEL `proj.ds.churn_3`\<newline>OPTIONS (\<newline>model_type='boosted_tree',\<newline>max_iterations=50,\<newline>data_split_method='CUSTOM',\<newline>data_split_col='is_eval',\<newline>input_label_cols=['y'])\<newline>AS (\<newline>    WITH train_query AS (SELECT a, b, y FROM proj.ds.train),\<newline>         eval_data AS (SELECT a, b, y FROM proj.ds.eval)\<newline>    SELECT *, false as is_eval FROM train_query UNION ALL \<newline>    SELECT *, true as is_eval FROM eval_data\<newline>)\<newline>'',
          ''mlflow_model_'')]\<rparr>"

section \<open>Facts about the building blocks\<close>

lemma dict_get_dict_set_same: "dict_get (dict_set d k v) k = Some v"
  by (induction d) auto

lemma dict_get_dict_set_other: "k' \<noteq> k \<Longrightarrow> dict_get (dict_set d k v) k' = dict_get d k'"
  by (induction d) auto

lemma lower_data_split_method: "lower ''data_split_method'' = ''data_split_method''"
  by code_simp

lemma metrics_loop_append:
  "metrics_loop rows acc = acc @ map (\<lambda>r. \<lparr>metrics = row_metric r, step = iteration r\<rparr>) rows"
  by (induction rows arbitrary: acc) simp_all

lemma render_option_str: "render_option (k, PStr s) = k @ ''='' @ [CHR 0x27] @ s @ [CHR 0x27]"
  by (simp add: render_option_def)

lemma render_option_other: "\<not> isinstance_str v \<Longrightarrow> render_option (k, v) = k @ ''='' @ str v"
  by (simp add: render_option_def)

text \<open>What each operation does on an adapter that \<^verbatim>\<open>instantiate_model\<close> has set up.\<close>

lemma fit_instantiated:
  assumes "kwargs self = Some kw" and "sql_model_path self = Some path"
  shows "fit E self w train_x train_y eval_x eval_y =
    ((case job_outcome E (submitted w)
             (create_model_query path
                (render_options (dict_set kw ''input_label_cols'' (PList (columns train_y))))
                (get_select_query E
                   (BigQueryLocation (columns train_x @ columns train_y) (id_column train_x)
                      (table train_x) (order train_x) (limit train_x)) False)
                (get_select_query E
                   (BigQueryLocation (columns eval_x @ columns eval_y) (id_column eval_x)
                      (table eval_x) (order eval_x) (limit eval_x)) False))
             job_id_prefix of
        Inl e \<Rightarrow> Inl e | Inr j \<Rightarrow> Inr ()),
     self\<lparr>kwargs := Some (dict_set kw ''input_label_cols'' (PList (columns train_y)))\<rparr>,
     w\<lparr>submitted := submitted w @
          [(create_model_query path
              (render_options (dict_set kw ''input_label_cols'' (PList (columns train_y))))
              (get_select_query E
                 (BigQueryLocation (columns train_x @ columns train_y) (id_column train_x)
                    (table train_x) (order train_x) (limit train_x)) False)
              (get_select_query E
                 (BigQueryLocation (columns eval_x @ columns eval_y) (id_column eval_x)
                    (table eval_x) (order eval_x) (limit eval_x)) False),
            job_id_prefix)]\<rparr>)"
  using assms
  by (simp add: fit_def run_query_and_wait_def Let_def split: sum.split)

lemma instantiate_model_sets_attributes:
  "\<exists>self' d.
     instantiate_model self w mid mver kw = (Inr (), self', w) \<and>
     kwargs self' = Some d \<and>
     sql_model_path self' =
       Some (str (project self) @ ''.'' @ str (dataset self) @ ''.'' @ str mid @ ''_'' @ str mver)"
  by (simp add: instantiate_model_def Let_def)

lemma fit_leaves_label_list:
  assumes "kwargs self = Some kw"
  shows "kwargs (fst (snd (fit E self w train_x train_y eval_x eval_y))) =
         Some (dict_set kw ''input_label_cols'' (PList (columns train_y)))"
  using assms
  by (simp add: fit_def Let_def split: option.split sum.split prod.split)

lemma join_Cons: "join sep (x # xs) = x @ concat (map (\<lambda>y. sep @ y) xs)"
  by (induction sep xs arbitrary: x rule: join.induct) simp_all

lemma dict_set_Cons: "\<exists>first rest. dict_set d k v = first # rest"
  by (cases d) auto

lemma predict_on_label_list:
  assumes "kwargs self = Some kw"
    and "dict_get kw ''input_label_cols'' = Some (PList (target # others))"
    and "sql_model_path self = Some path"
    and "run_query_and_wait E w
           (predict_query (id_column data) target path (get_select_query E data True))
           job_id_prefix = (Inr job, w')"
  shows "predict E self w data =
    (Inr \<lparr>columns = [''predicted_'' @ target], id_column = id_column data,
          table = dest_project (destination job) @ ''.'' @ dataset_id (destination job) @ ''.'' @
                  table_id (destination job),
          order = order data, limit = limit_default E\<rparr>, self, w')"
  using assms by (simp add: predict_def BigQueryLocation_def Let_def)

lemma fit_returned:
  assumes "fit E self0 w0 train_x train_y eval_x eval_y = (Inr (), self, w1)"
  shows "\<exists>kw path.
    kwargs self0 = Some kw \<and> sql_model_path self0 = Some path \<and>
    self = self0\<lparr>kwargs := Some (dict_set kw ''input_label_cols'' (PList (columns train_y)))\<rparr>"
proof (cases "kwargs self0")
  case None
  with assms show ?thesis
    by (simp add: fit_def)
next
  case (Some kw)
  show ?thesis
  proof (cases "sql_model_path self0")
    case None
    with Some assms show ?thesis
      by (simp add: fit_def Let_def)
  next
    case (Some path)
    from fit_instantiated [OF \<open>kwargs self0 = Some kw\<close> Some, of E w0 train_x train_y eval_x eval_y]
      assms
    have "self = self0\<lparr>kwargs := Some (dict_set kw ''input_label_cols'' (PList (columns train_y)))\<rparr>"
      by simp
    with \<open>kwargs self0 = Some kw\<close> Some show ?thesis
      by blast
  qed
qed

lemma fit_submits:
  "\<exists>qs. submitted (snd (snd (fit E self w train_x train_y eval_x eval_y))) =
          submitted w @ map (\<lambda>q. (q, job_id_prefix)) qs"
proof (cases "kwargs self")
  case None
  then have "submitted (snd (snd (fit E self w train_x train_y eval_x eval_y))) =
      submitted w @ map (\<lambda>q. (q, job_id_prefix)) []"
    by (simp add: fit_def)
  then show ?thesis by blast
next
  case (Some kw)
  show ?thesis
  proof (cases "sql_model_path self")
    case None
    with Some have "submitted (snd (snd (fit E self w train_x train_y eval_x eval_y))) =
        submitted w @ map (\<lambda>q. (q, job_id_prefix)) []"
      by (simp add: fit_def Let_def)
    then show ?thesis by blast
  next
    case (Some path)
    from fit_instantiated [OF \<open>kwargs self = Some kw\<close> Some]
    obtain q where "submitted (snd (snd (fit E self w train_x train_y eval_x eval_y))) =
        submitted w @ map (\<lambda>q. (q, job_id_prefix)) [q]"
      by simp
    then show ?thesis by blast
  qed
qed

lemma predict_submits:
  "\<exists>qs. submitted (snd (snd (predict E self w data))) =
          submitted w @ map (\<lambda>q. (q, job_id_prefix)) qs"
proof (cases "\<exists>q. submitted (snd (snd (predict E self w data))) = submitted w @ [(q, job_id_prefix)]")
  case True
  then obtain q where "submitted (snd (snd (predict E self w data))) =
      submitted w @ map (\<lambda>q. (q, job_id_prefix)) [q]"
    by auto
  then show ?thesis by blast
next
  case False
  then have "submitted (snd (snd (predict E self w data))) =
      submitted w @ map (\<lambda>q. (q, job_id_prefix)) []"
    by (auto simp: predict_def run_query_and_wait_def Let_def
             split: option.splits sum.splits)
  then show ?thesis by blast
qed

lemma get_train_metrics_submits:
  "\<exists>qs. submitted (snd (snd (get_train_metrics E self w))) =
          submitted w @ map (\<lambda>q. (q, job_id_prefix)) qs"
proof (cases "sql_model_path self")
  case None
  then have "submitted (snd (snd (get_train_metrics E self w))) =
      submitted w @ map (\<lambda>q. (q, job_id_prefix)) []"
    by (simp add: get_train_metrics_def)
  then show ?thesis by blast
next
  case (Some path)
  then have "submitted (snd (snd (get_train_metrics E self w))) =
      submitted w @ map (\<lambda>q. (q, job_id_prefix)) [train_metric_query path]"
    by (simp add: get_train_metrics_def run_query_and_wait_def split: sum.split)
  then show ?thesis by blast
qed

section \<open>The operations on the example values\<close>

text \<open>The example adapter is what \<^verbatim>\<open>instantiate_model\<close> builds; \<^verbatim>\<open>fit\<close>,
  \<^verbatim>\<open>predict\<close> and \<^verbatim>\<open>get_train_metrics\<close> are run on it with their statements written
  out. The last example is \<^verbatim>\<open>predict\<close> on a stored label list that is empty.\<close>

lemma example_adapter_reached:
  "instantiate_model (init (PStr ''proj'') (PStr ''ds'')) example_warehouse (PStr ''churn'') (PInt 3)
     [(''model_type'', PStr ''boosted_tree''), (''max_iterations'', PInt 50)] =
   (Inr (), example_adapter, example_warehouse)"
  by code_simp

lemma example_fit_statement:
  "fit example_env example_adapter example_warehouse
     example_train_x example_train_y example_eval_x example_eval_y =
   (Inr (), example_fitted, example_fitted_warehouse)"
  by code_simp

lemma example_predict_statement:
  "predict example_env example_fitted example_warehouse example_eval_x =
   (Inr \<lparr>columns = [''predicted_y''], id_column = ''id'', table = ''proj.tmp.anon7'',
         order = Some ''id'', limit = None\<rparr>,
    example_fitted,
    \<lparr>submitted =
       [(''\<newline>SELECT id, predicted_y FROM ML.PREDICT(MODEL `proj.ds.churn_3`, (SELECT id, a, b FROM proj.ds.eval))\<newline>'',
         ''mlflow_model_'')]\<rparr>)"
  by code_simp

lemma example_train_metrics:
  "get_train_metrics example_env example_adapter example_warehouse =
   (Inr [\<lparr>metrics = [(''loss'', PFloat ''0.9''), (''eval_loss'', PFloat ''1.1''),
                      (''duration_ms'', PInt 1200), (''learning_rate'', PFloat ''0.1'')],
          step = PInt 0\<rparr>,
         \<lparr>metrics = [(''loss'', PFloat ''0.5''), (''eval_loss'', PFloat ''0.7''),
                      (''duration_ms'', PInt 900), (''learning_rate'', PFloat ''0.1'')],
          step = PInt 1\<rparr>],
    example_adapter,
    \<lparr>submitted =
       [(''\<newline>SELECT * FROM ML.TRAINING_INFO(MODEL `proj.ds.churn_3`) ORDER BY iteration\<newline>    '',
         ''mlflow_model_'')]\<rparr>)"
  by code_simp

lemma example_predict_empty_labels:
  "predict example_env (example_adapter\<lparr>kwargs := Some [(''input_label_cols'', PList [])]\<rparr>)
     example_warehouse example_eval_x =
   (Inl IndexError, example_adapter\<lparr>kwargs := Some [(''input_label_cols'', PList [])]\<rparr>,
    example_warehouse)"
  by code_simp

section \<open>The claims\<close>

text \<open>
  C1: on an adapter that has been instantiated, \<^verbatim>\<open>fit\<close> stores the columns of
  \<open>train_y\<close> under \<^verbatim>\<open>input_label_cols\<close>, and the statement it submits ends with the
  training sub-query (the select statement of the location whose columns are those of
  \<open>train_x\<close> followed by those of \<open>train_y\<close>) and the evaluation sub-query (likewise for
  \<open>eval_x\<close> and \<open>eval_y\<close>), the first tagged \<^verbatim>\<open>false as is_eval\<close>, the second
  \<^verbatim>\<open>true as is_eval\<close>, joined by \<^verbatim>\<open>UNION ALL\<close>. This holds whether the job then
  succeeds or fails.
\<close>

theorem fit_stores_labels_and_unions_splits:
  assumes "kwargs self = Some kw" and "sql_model_path self = Some path"
  shows "\<exists>r self' d pre.
    fit E self w train_x train_y eval_x eval_y =
      (r, self',
       w\<lparr>submitted := submitted w @
          [(pre @ ''    WITH train_query AS ('' @
              get_select_query E
                \<lparr>columns = columns train_x @ columns train_y, id_column = id_column train_x,
                 table = table train_x, order = order train_x, limit = limit train_x\<rparr> False @
              ''),\<newline>         eval_data AS ('' @
              get_select_query E
                \<lparr>columns = columns eval_x @ columns eval_y, id_column = id_column eval_x,
                 table = table eval_x, order = order eval_x, limit = limit eval_x\<rparr> False @
              '')\<newline>    SELECT *, false as is_eval FROM train_query UNION ALL \<newline>'' @
              ''    SELECT *, true as is_eval FROM eval_data\<newline>)\<newline>'',
            job_id_prefix)]\<rparr>) \<and>
    kwargs self' = Some d \<and>
    dict_get d ''input_label_cols'' = Some (PList (columns train_y))"
proof -
  let ?d = "dict_set kw ''input_label_cols'' (PList (columns train_y))"
  let ?pre = "''\<newline>CREATE OR REPLACE MODEL `'' @ path @ ''`\<newline>OPTIONS (\<newline>'' @
     render_options ?d @ '')\<newline>AS (\<newline>''"
  let ?train = "get_select_query E
                \<lparr>columns = columns train_x @ columns train_y, id_column = id_column train_x,
                 table = table train_x, order = order train_x, limit = limit train_x\<rparr> False"
  let ?eval = "get_select_query E
                \<lparr>columns = columns eval_x @ columns eval_y, id_column = id_column eval_x,
                 table = table eval_x, order = order eval_x, limit = limit eval_x\<rparr> False"
  let ?q = "create_model_query path (render_options ?d) ?train ?eval"
  let ?r = "case job_outcome E (submitted w) ?q job_id_prefix of
              Inl e \<Rightarrow> Inl e | Inr j \<Rightarrow> Inr ()"
  let ?s = "self\<lparr>kwargs := Some ?d\<rparr>"
  have q: "?q = ?pre @ ''    WITH train_query AS ('' @ ?train @
              ''),\<newline>         eval_data AS ('' @ ?eval @
              '')\<newline>    SELECT *, false as is_eval FROM train_query UNION ALL \<newline>'' @
              ''    SELECT *, true as is_eval FROM eval_data\<newline>)\<newline>''"
    by (simp add: create_model_query_def)
  have "fit E self w train_x train_y eval_x eval_y =
      (?r, ?s, w\<lparr>submitted := submitted w @ [(?q, job_id_prefix)]\<rparr>)"
    using fit_instantiated [OF assms, of E w train_x train_y eval_x eval_y]
    by (simp only: BigQueryLocation_def)
  then have eq: "fit E self w train_x train_y eval_x eval_y =
      (?r, ?s, w\<lparr>submitted := submitted w @ [(?pre @ ''    WITH train_query AS ('' @ ?train @
              ''),\<newline>         eval_data AS ('' @ ?eval @
              '')\<newline>    SELECT *, false as is_eval FROM train_query UNION ALL \<newline>'' @
              ''    SELECT *, true as is_eval FROM eval_data\<newline>)\<newline>'', job_id_prefix)]\<rparr>)"
    by (simp only: q)
  have get: "dict_get ?d ''input_label_cols'' = Some (PList (columns train_y))"
    by (rule dict_get_dict_set_same)
  have kw: "kwargs ?s = Some ?d"
    by simp
  from eq kw get show ?thesis
    by blast
qed

theorem fit_stores_labels_and_unions_splits_witness:
  "kwargs example_adapter = Some example_options \<and>
   sql_model_path example_adapter = Some ''proj.ds.churn_3'' \<and>
   (\<exists>r self' d pre.
      fit example_env example_adapter example_warehouse
          example_train_x example_train_y example_eval_x example_eval_y =
        (r, self',
         example_warehouse\<lparr>submitted := submitted example_warehouse @
            [(pre @ ''    WITH train_query AS ('' @
                get_select_query example_env
                  \<lparr>columns = columns example_train_x @ columns example_train_y,
                   id_column = id_column example_train_x, table = table example_train_x,
                   order = order example_train_x, limit = limit example_train_x\<rparr> False @
                ''),\<newline>         eval_data AS ('' @
                get_select_query example_env
                  \<lparr>columns = columns example_eval_x @ columns example_eval_y,
                   id_column = id_column example_eval_x, table = table example_eval_x,
                   order = order example_eval_x, limit = limit example_eval_x\<rparr> False @
                '')\<newline>    SELECT *, false as is_eval FROM train_query UNION ALL \<newline>'' @
                ''    SELECT *, true as is_eval FROM eval_data\<newline>)\<newline>'',
              job_id_prefix)]\<rparr>) \<and>
      kwargs self' = Some d \<and>
      dict_get d ''input_label_cols'' = Some (PList (columns example_train_y)))"
proof -
  have h1: "kwargs example_adapter = Some example_options"
    by (simp add: example_adapter_def)
  have h2: "sql_model_path example_adapter = Some ''proj.ds.churn_3''"
    by (simp add: example_adapter_def)
  from h1 h2 fit_stores_labels_and_unions_splits [OF h1 h2]
  show ?thesis
    by blast
qed

text \<open>
  C2: when no key of the options is \<^verbatim>\<open>data_split_method\<close> once lowered,
  \<^verbatim>\<open>instantiate_model\<close> returns with a stored configuration that maps
  \<^verbatim>\<open>data_split_method\<close> to \<^verbatim>\<open>'CUSTOM'\<close> and \<^verbatim>\<open>data_split_col\<close> to \<^verbatim>\<open>'is_eval'\<close>.
\<close>

theorem instantiate_model_injects_split_defaults:
  assumes "\<forall>k\<in>set (keys kw). lower k \<noteq> ''data_split_method''"
  shows "\<exists>self' d.
    instantiate_model self w mid mver kw = (Inr (), self', w) \<and>
    kwargs self' = Some d \<and>
    dict_get d ''data_split_method'' = Some (PStr ''CUSTOM'') \<and>
    dict_get d ''data_split_col'' = Some (PStr ''is_eval'')"
proof -
  from assms have absent: "lower ''data_split_method'' \<notin> set (map lower (keys kw))"
    by (auto simp: lower_data_split_method)
  let ?d = "dict_set (dict_set kw ''data_split_method'' (PStr ''CUSTOM''))
              ''data_split_col'' (PStr ''is_eval'')"
  have "dict_get ?d ''data_split_method'' =
        dict_get (dict_set kw ''data_split_method'' (PStr ''CUSTOM'')) ''data_split_method''"
    by (rule dict_get_dict_set_other) simp
  then have m: "dict_get ?d ''data_split_method'' = Some (PStr ''CUSTOM'')"
    by (simp only: dict_get_dict_set_same)
  have c: "dict_get ?d ''data_split_col'' = Some (PStr ''is_eval'')"
    by (rule dict_get_dict_set_same)
  from absent m c show ?thesis
    by (simp add: instantiate_model_def Let_def)
qed

theorem instantiate_model_injects_split_defaults_witness:
  "lower ''model_type'' \<noteq> ''data_split_method'' \<and>
   lower ''Data_Split_Col'' \<noteq> ''data_split_method'' \<and>
   (\<exists>self' d.
      instantiate_model (init (PStr ''proj'') (PStr ''ds'')) example_warehouse
          (PStr ''churn'') (PInt 3)
          [(''model_type'', PStr ''linear_reg''), (''Data_Split_Col'', PStr ''fold'')] =
        (Inr (), self', example_warehouse) \<and>
      kwargs self' = Some d \<and>
      dict_get d ''data_split_method'' = Some (PStr ''CUSTOM'') \<and>
      dict_get d ''data_split_col'' = Some (PStr ''is_eval''))"
proof -
  have k1: "lower ''model_type'' \<noteq> ''data_split_method''"
    by code_simp
  have k2: "lower ''Data_Split_Col'' \<noteq> ''data_split_method''"
    by code_simp
  from k1 k2
  have h: "\<forall>k\<in>set (keys [(''model_type'', PStr ''linear_reg''), (''Data_Split_Col'', PStr ''fold'')]).
      lower k \<noteq> ''data_split_method''"
    by (simp add: keys_def)
  from k1 k2 instantiate_model_injects_split_defaults [OF h]
  show ?thesis
    by blast
qed

text \<open>
  C3: when some key of the options is \<^verbatim>\<open>data_split_method\<close> once lowered, in any
  casing, \<^verbatim>\<open>instantiate_model\<close> stores the options as they are: same items, same
  order, nothing injected.
\<close>

theorem instantiate_model_keeps_caller_split:
  assumes "\<exists>k\<in>set (keys kw). lower k = ''data_split_method''"
  shows "\<exists>self'.
    instantiate_model self w mid mver kw = (Inr (), self', w) \<and> kwargs self' = Some kw"
proof -
  from assms obtain k where "k \<in> set (keys kw)" and "lower k = ''data_split_method''"
    by blast
  then have "''data_split_method'' \<in> set (map lower (keys kw))"
    by force
  then have "lower ''data_split_method'' \<in> set (map lower (keys kw))"
    by (simp only: lower_data_split_method)
  then show ?thesis
    by (simp add: instantiate_model_def Let_def)
qed

theorem instantiate_model_keeps_caller_split_witness:
  "(\<exists>k\<in>set (keys [(''model_type'', PStr ''linear_reg''), (''DATA_split_Method'', PStr ''RANDOM'')]).
      lower k = ''data_split_method'') \<and>
   (\<exists>self'.
      instantiate_model (init (PStr ''proj'') (PStr ''ds'')) example_warehouse
          (PStr ''churn'') (PInt 3)
          [(''model_type'', PStr ''linear_reg''), (''DATA_split_Method'', PStr ''RANDOM'')] =
        (Inr (), self', example_warehouse) \<and>
      kwargs self' =
        Some [(''model_type'', PStr ''linear_reg''), (''DATA_split_Method'', PStr ''RANDOM'')])"
proof -
  have h: "\<exists>k\<in>set (keys [(''model_type'', PStr ''linear_reg''), (''DATA_split_Method'', PStr ''RANDOM'')]).
      lower k = ''data_split_method''"
    by code_simp
  from h instantiate_model_keeps_caller_split [OF h]
  show ?thesis
    by blast
qed

text \<open>
  C4: on an instantiated adapter holding the configuration \<open>kw\<close>, the statement
  \<^verbatim>\<open>fit\<close> submits has, between \<^verbatim>\<open>OPTIONS (\<close> and \<^verbatim>\<open>)\<close>, the items of \<open>kw\<close>
  with the label columns set under \<^verbatim>\<open>input_label_cols\<close>, in the order of the mapping:
  the first item, then every further item after a comma and a newline. An item whose value
  is a string is \<^verbatim>\<open>key='value'\<close>, and an item whose value is not a string is
  \<^verbatim>\<open>key=\<close> followed by the text of the value, with no quotes around it.
\<close>

theorem fit_renders_options_clause:
  assumes "kwargs self = Some kw" and "sql_model_path self = Some path"
  shows "\<exists>r first rest.
    dict_set kw ''input_label_cols'' (PList (columns train_y)) = first # rest \<and>
    fit E self w train_x train_y eval_x eval_y =
      (r, self\<lparr>kwargs := Some (first # rest)\<rparr>,
       w\<lparr>submitted := submitted w @
          [(''\<newline>CREATE OR REPLACE MODEL `'' @ path @ ''`\<newline>OPTIONS (\<newline>'' @
              render_option first @
              concat (map (\<lambda>item. '',\<newline>'' @ render_option item) rest) @
              '')\<newline>AS (\<newline>    WITH train_query AS ('' @
              get_select_query E
                \<lparr>columns = columns train_x @ columns train_y, id_column = id_column train_x,
                 table = table train_x, order = order train_x, limit = limit train_x\<rparr> False @
              ''),\<newline>         eval_data AS ('' @
              get_select_query E
                \<lparr>columns = columns eval_x @ columns eval_y, id_column = id_column eval_x,
                 table = table eval_x, order = order eval_x, limit = limit eval_x\<rparr> False @
              '')\<newline>    SELECT *, false as is_eval FROM train_query UNION ALL \<newline>'' @
              ''    SELECT *, true as is_eval FROM eval_data\<newline>)\<newline>'',
            ''mlflow_model_'')]\<rparr>) \<and>
    (\<forall>key s. render_option (key, PStr s) = key @ ''='' @ [CHR 0x27] @ s @ [CHR 0x27]) \<and>
    (\<forall>key v. (\<forall>s. v \<noteq> PStr s) \<longrightarrow> render_option (key, v) = key @ ''='' @ str v)"
proof -
  let ?d = "dict_set kw ''input_label_cols'' (PList (columns train_y))"
  obtain first rest where d: "?d = first # rest"
    using dict_set_Cons by blast
  let ?train = "get_select_query E
                \<lparr>columns = columns train_x @ columns train_y, id_column = id_column train_x,
                 table = table train_x, order = order train_x, limit = limit train_x\<rparr> False"
  let ?eval = "get_select_query E
                \<lparr>columns = columns eval_x @ columns eval_y, id_column = id_column eval_x,
                 table = table eval_x, order = order eval_x, limit = limit eval_x\<rparr> False"
  let ?q = "create_model_query path (render_options ?d) ?train ?eval"
  let ?text = "''\<newline>CREATE OR REPLACE MODEL `'' @ path @ ''`\<newline>OPTIONS (\<newline>'' @
              render_option first @
              concat (map (\<lambda>item. '',\<newline>'' @ render_option item) rest) @
              '')\<newline>AS (\<newline>    WITH train_query AS ('' @ ?train @
              ''),\<newline>         eval_data AS ('' @ ?eval @
              '')\<newline>    SELECT *, false as is_eval FROM train_query UNION ALL \<newline>'' @
              ''    SELECT *, true as is_eval FROM eval_data\<newline>)\<newline>''"
  have clause: "render_options ?d =
      render_option first @ concat (map (\<lambda>item. '',\<newline>'' @ render_option item) rest)"
    by (simp add: render_options_def d join_Cons comp_def)
  have q: "?q = ?text"
    by (simp add: create_model_query_def clause)
  have "fit E self w train_x train_y eval_x eval_y =
      (case job_outcome E (submitted w) ?q job_id_prefix of Inl e \<Rightarrow> Inl e | Inr j \<Rightarrow> Inr (),
       self\<lparr>kwargs := Some ?d\<rparr>, w\<lparr>submitted := submitted w @ [(?q, job_id_prefix)]\<rparr>)"
    using fit_instantiated [OF assms, of E w train_x train_y eval_x eval_y]
    by (simp only: BigQueryLocation_def)
  then obtain r where "fit E self w train_x train_y eval_x eval_y =
      (r, self\<lparr>kwargs := Some ?d\<rparr>, w\<lparr>submitted := submitted w @ [(?q, job_id_prefix)]\<rparr>)"
    by blast
  then have "fit E self w train_x train_y eval_x eval_y =
      (r, self\<lparr>kwargs := Some ?d\<rparr>, w\<lparr>submitted := submitted w @ [(?text, job_id_prefix)]\<rparr>)"
    by (simp only: q)
  then have eq: "fit E self w train_x train_y eval_x eval_y =
      (r, self\<lparr>kwargs := Some (first # rest)\<rparr>,
       w\<lparr>submitted := submitted w @ [(?text, ''mlflow_model_'')]\<rparr>)"
    by (simp only: d job_id_prefix_def)
  have quoted: "\<forall>key s. render_option (key, PStr s) = key @ ''='' @ [CHR 0x27] @ s @ [CHR 0x27]"
    by (simp add: render_option_str)
  have bare: "\<forall>key v. (\<forall>s. v \<noteq> PStr s) \<longrightarrow> render_option (key, v) = key @ ''='' @ str v"
  proof (intro allI impI)
    fix key v
    assume "\<forall>s. v \<noteq> PStr s"
    then have "\<not> isinstance_str v"
      by (cases v) simp_all
    then show "render_option (key, v) = key @ ''='' @ str v"
      by (rule render_option_other)
  qed
  from d eq quoted bare show ?thesis
    by blast
qed

theorem fit_renders_options_clause_witness:
  "kwargs example_adapter = Some example_options \<and>
   sql_model_path example_adapter = Some ''proj.ds.churn_3'' \<and>
   (\<exists>r. fit example_env example_adapter example_warehouse
          example_train_x example_train_y example_eval_x example_eval_y =
        (r, example_fitted, example_fitted_warehouse)) \<and>
   submitted example_fitted_warehouse =
     [(''\<newline>CREATE OR REPLACE MODEL `proj.ds.churn_3`\<newline>OPTIONS (\<newline>model_type='boosted_tree',\<newline>max_iterations=50,\<newline>data_split_method='CUSTOM',\<newline>data_split_col='is_eval',\<newline>input_label_cols=['y'])\<newline>AS (\<newline>    WITH train_query AS (SELECT a, b, y FROM proj.ds.train),\<newline>         eval_data AS (SELECT a, b, y FROM proj.ds.eval)\<newline>    SELECT *, false as is_eval FROM train_query UNION ALL \<newline>    SELECT *, true as is_eval FROM eval_data\<newline>)\<newline>'',
       ''mlflow_model_'')] \<and>
   render_option (''model_type'', PStr ''boosted_tree'') =
     ''model_type='' @ [CHR 0x27] @ ''boosted_tree'' @ [CHR 0x27] \<and>
   render_option (''max_iterations'', PInt 50) = ''max_iterations=50''"
proof -
  have h1: "kwargs example_adapter = Some example_options"
    by (simp add: example_adapter_def)
  have h2: "sql_model_path example_adapter = Some ''proj.ds.churn_3''"
    by (simp add: example_adapter_def)
  have n: "str (PInt 50) = ''50''"
    by code_simp
  have l: "str (PList [''y'']) = ''['y']''"
    by code_simp
  have d0: "dict_set example_options ''input_label_cols'' (PList (columns example_train_y)) =
      (''model_type'', PStr ''boosted_tree'') #
      [(''max_iterations'', PInt 50), (''data_split_method'', PStr ''CUSTOM''),
       (''data_split_col'', PStr ''is_eval''), (''input_label_cols'', PList [''y''])]"
    by (simp add: example_options_def example_train_y_def)
  from fit_renders_options_clause [OF h1 h2, of example_train_y example_env example_warehouse
      example_train_x example_eval_x example_eval_y]
  obtain r first rest
    where d: "dict_set example_options ''input_label_cols'' (PList (columns example_train_y)) =
        first # rest"
    and eq: "fit example_env example_adapter example_warehouse
          example_train_x example_train_y example_eval_x example_eval_y =
      (r, example_adapter\<lparr>kwargs := Some (first # rest)\<rparr>,
       example_warehouse\<lparr>submitted := submitted example_warehouse @
          [(''\<newline>CREATE OR REPLACE MODEL `'' @ ''proj.ds.churn_3'' @ ''`\<newline>OPTIONS (\<newline>'' @
              render_option first @
              concat (map (\<lambda>item. '',\<newline>'' @ render_option item) rest) @
              '')\<newline>AS (\<newline>    WITH train_query AS ('' @
              get_select_query example_env
                \<lparr>columns = columns example_train_x @ columns example_train_y,
                 id_column = id_column example_train_x, table = table example_train_x,
                 order = order example_train_x, limit = limit example_train_x\<rparr> False @
              ''),\<newline>         eval_data AS ('' @
              get_select_query example_env
                \<lparr>columns = columns example_eval_x @ columns example_eval_y,
                 id_column = id_column example_eval_x, table = table example_eval_x,
                 order = order example_eval_x, limit = limit example_eval_x\<rparr> False @
              '')\<newline>    SELECT *, false as is_eval FROM train_query UNION ALL \<newline>'' @
              ''    SELECT *, true as is_eval FROM eval_data\<newline>)\<newline>'',
            ''mlflow_model_'')]\<rparr>)"
    and quoted: "\<forall>key s. render_option (key, PStr s) = key @ ''='' @ [CHR 0x27] @ s @ [CHR 0x27]"
    and bare: "\<forall>key v. (\<forall>s. v \<noteq> PStr s) \<longrightarrow> render_option (key, v) = key @ ''='' @ str v"
    by blast
  from d d0 have first: "first = (''model_type'', PStr ''boosted_tree'')"
    and rest: "rest = [(''max_iterations'', PInt 50), (''data_split_method'', PStr ''CUSTOM''),
       (''data_split_col'', PStr ''is_eval''), (''input_label_cols'', PList [''y''])]"
    by simp_all
  have s1: "render_option (''model_type'', PStr ''boosted_tree'') =
        ''model_type'' @ ''='' @ [CHR 0x27] @ ''boosted_tree'' @ [CHR 0x27]"
    using quoted by blast
  have "\<forall>s. PInt 50 \<noteq> PStr s"
    by simp
  with bare have "render_option (''max_iterations'', PInt 50) = ''max_iterations'' @ ''='' @ str (PInt 50)"
    by blast
  then have s2: "render_option (''max_iterations'', PInt 50) = ''max_iterations=50''"
    by (simp add: n del: str.simps)
  have "\<forall>s. PList [''y''] \<noteq> PStr s"
    by simp
  with bare have "render_option (''input_label_cols'', PList [''y'']) =
      ''input_label_cols'' @ ''='' @ str (PList [''y''])"
    by blast
  then have s3: "render_option (''input_label_cols'', PList [''y'']) = ''input_label_cols=['y']''"
    by (simp add: l del: str.simps)
  have s4: "render_option (''data_split_method'', PStr ''CUSTOM'') = ''data_split_method='' @ [CHR 0x27] @ ''CUSTOM'' @ [CHR 0x27]"
    using quoted by simp
  have s5: "render_option (''data_split_col'', PStr ''is_eval'') = ''data_split_col='' @ [CHR 0x27] @ ''is_eval'' @ [CHR 0x27]"
    using quoted by simp
  from eq have run: "fit example_env example_adapter example_warehouse
          example_train_x example_train_y example_eval_x example_eval_y =
        (r, example_fitted, example_fitted_warehouse)"
    by (simp add: first rest s1 s2 s3 s4 s5 example_fitted_def example_fitted_warehouse_def
          example_options_def example_warehouse_def example_env_def example_train_x_def
          example_train_y_def example_eval_x_def example_eval_y_def)
  have w: "submitted example_fitted_warehouse =
     [(''\<newline>CREATE OR REPLACE MODEL `proj.ds.churn_3`\<newline>OPTIONS (\<newline>model_type='boosted_tree',\<newline>max_iterations=50,\<newline>data_split_method='CUSTOM',\<newline>data_split_col='is_eval',\<newline>input_label_cols=['y'])\<newline>AS (\<newline>    WITH train_query AS (SELECT a, b, y FROM proj.ds.train),\<newline>         eval_data AS (SELECT a, b, y FROM proj.ds.eval)\<newline>    SELECT *, false as is_eval FROM train_query UNION ALL \<newline>    SELECT *, true as is_eval FROM eval_data\<newline>)\<newline>'',
       ''mlflow_model_'')]"
    by (simp add: example_fitted_warehouse_def)
  from run have "\<exists>r. fit example_env example_adapter example_warehouse
          example_train_x example_train_y example_eval_x example_eval_y =
        (r, example_fitted, example_fitted_warehouse)"
    by blast
  with h1 h2 w s1 s2 show ?thesis
    by simp
qed

text \<open>
  C5: when the stored configuration has no key \<^verbatim>\<open>input_label_cols\<close>, as is the
  case until \<^verbatim>\<open>fit\<close> runs unless the caller passed such an option, \<^verbatim>\<open>predict\<close>
  raises \<^verbatim>\<open>KeyError\<close>, the adapter is unchanged and no job has been submitted.
\<close>

theorem predict_before_fit_raises_KeyError:
  assumes "kwargs self = Some kw" and "dict_get kw ''input_label_cols'' = None"
  shows "predict E self w data = (Inl (KeyError ''input_label_cols''), self, w)"
  using assms by (simp add: predict_def)

theorem predict_before_fit_raises_KeyError_witness:
  "kwargs example_adapter = Some example_options \<and>
   dict_get example_options ''input_label_cols'' = None \<and>
   predict example_env example_adapter example_warehouse example_train_x =
     (Inl (KeyError ''input_label_cols''), example_adapter, example_warehouse)"
proof -
  have h1: "kwargs example_adapter = Some example_options"
    by (simp add: example_adapter_def)
  have h2: "dict_get example_options ''input_label_cols'' = None"
    by (simp add: example_options_def)
  from h1 h2 predict_before_fit_raises_KeyError [OF h1 h2]
  show ?thesis
    by blast
qed

text \<open>
  C6: \<^verbatim>\<open>predict\<close> after \<^verbatim>\<open>fit\<close>. As the claim is worded, for every adapter on
  which \<^verbatim>\<open>fit\<close> has run, it fails: \<^verbatim>\<open>fit\<close> returns normally for a \<open>train_y\<close>
  without columns and stores the empty list, and \<^verbatim>\<open>predict\<close> then raises
  \<^verbatim>\<open>IndexError\<close> before any job and returns no location.
\<close>

theorem predict_after_fit_without_label_columns_counterexample:
  "fst (fit example_env example_adapter example_warehouse
          example_train_x (example_train_y\<lparr>columns := []\<rparr>) example_eval_x example_eval_y) =
     Inr () \<and>
   fst (predict example_env
          (fst (snd (fit example_env example_adapter example_warehouse
             example_train_x (example_train_y\<lparr>columns := []\<rparr>) example_eval_x example_eval_y)))
          (snd (snd (fit example_env example_adapter example_warehouse
             example_train_x (example_train_y\<lparr>columns := []\<rparr>) example_eval_x example_eval_y)))
          example_eval_x) =
     Inl IndexError"
  by code_simp

text \<open>
  C6, amended: when \<^verbatim>\<open>fit\<close> has returned on the adapter for a \<open>train_y\<close> that
  has at least one column, and the prediction job completes, \<^verbatim>\<open>predict\<close> returns a
  location whose columns are the one name \<^verbatim>\<open>predicted_\<close> followed by the first column
  of that \<open>train_y\<close> (the first entry of the stored \<^verbatim>\<open>input_label_cols\<close>), whose
  identifier column and ordering are those of \<open>data\<close>, and whose table is the job's
  destination as project.dataset.table; the adapter is left as \<^verbatim>\<open>fit\<close> left it.
\<close>

theorem predict_after_fit_returns_destination_location:
  assumes "fit E self0 w0 train_x train_y eval_x eval_y = (Inr (), self, w1)"
    and "columns train_y = target # others"
    and "sql_model_path self = Some path"
    and "run_query_and_wait E w
           (predict_query (id_column data) target path (get_select_query E data True))
           job_id_prefix = (Inr job, w')"
  shows "\<exists>loc.
    predict E self w data = (Inr loc, self, w') \<and>
    columns loc = [''predicted_'' @ target] \<and>
    id_column loc = id_column data \<and>
    table loc = dest_project (destination job) @ ''.'' @ dataset_id (destination job) @ ''.'' @
                table_id (destination job) \<and>
    order loc = order data"
proof -
  from fit_returned [OF assms(1)] obtain kw
    where self: "self = self0\<lparr>kwargs := Some (dict_set kw ''input_label_cols''
                                              (PList (columns train_y)))\<rparr>"
    by blast
  let ?d = "dict_set kw ''input_label_cols'' (PList (columns train_y))"
  from self have stored: "kwargs self = Some ?d"
    by simp
  have labels: "dict_get ?d ''input_label_cols'' = Some (PList (target # others))"
    by (simp only: dict_get_dict_set_same assms(2))
  from predict_on_label_list [OF stored labels assms(3) assms(4)]
  show ?thesis
    by simp
qed

theorem predict_after_fit_returns_destination_location_witness:
  "fit example_env example_adapter example_warehouse
       example_train_x example_train_y example_eval_x example_eval_y =
     (Inr (), example_fitted, example_fitted_warehouse) \<and>
   columns example_train_y = ''y'' # [] \<and>
   sql_model_path example_fitted = Some ''proj.ds.churn_3'' \<and>
   run_query_and_wait example_env example_fitted_warehouse
     (predict_query (id_column example_eval_x) ''y'' ''proj.ds.churn_3''
        (get_select_query example_env example_eval_x True))
     job_id_prefix =
     (Inr example_job,
      example_fitted_warehouse\<lparr>submitted := submitted example_fitted_warehouse @
         [(predict_query ''id'' ''y'' ''proj.ds.churn_3'' ''SELECT id, a, b FROM proj.ds.eval'',
           ''mlflow_model_'')]\<rparr>) \<and>
   (\<exists>loc.
      predict example_env example_fitted example_fitted_warehouse example_eval_x =
        (Inr loc, example_fitted,
         example_fitted_warehouse\<lparr>submitted := submitted example_fitted_warehouse @
            [(predict_query ''id'' ''y'' ''proj.ds.churn_3'' ''SELECT id, a, b FROM proj.ds.eval'',
              ''mlflow_model_'')]\<rparr>) \<and>
      columns loc = [''predicted_y''] \<and>
      id_column loc = ''id'' \<and>
      table loc = ''proj.tmp.anon7'' \<and>
      order loc = Some ''id'')"
proof -
  have h1: "fit example_env example_adapter example_warehouse
       example_train_x example_train_y example_eval_x example_eval_y =
     (Inr (), example_fitted, example_fitted_warehouse)"
    by (rule example_fit_statement)
  have h2: "columns example_train_y = ''y'' # []"
    by (simp add: example_train_y_def)
  have h3: "sql_model_path example_fitted = Some ''proj.ds.churn_3''"
    by (simp add: example_fitted_def example_adapter_def)
  have h4: "run_query_and_wait example_env example_fitted_warehouse
     (predict_query (id_column example_eval_x) ''y'' ''proj.ds.churn_3''
        (get_select_query example_env example_eval_x True))
     job_id_prefix =
     (Inr example_job,
      example_fitted_warehouse\<lparr>submitted := submitted example_fitted_warehouse @
         [(predict_query ''id'' ''y'' ''proj.ds.churn_3'' ''SELECT id, a, b FROM proj.ds.eval'',
           ''mlflow_model_'')]\<rparr>)"
    by (simp add: run_query_and_wait_def example_env_def example_eval_x_def job_id_prefix_def)
  from predict_after_fit_returns_destination_location [OF h1 h2 h3 h4]
  have "\<exists>loc.
      predict example_env example_fitted example_fitted_warehouse example_eval_x =
        (Inr loc, example_fitted,
         example_fitted_warehouse\<lparr>submitted := submitted example_fitted_warehouse @
            [(predict_query ''id'' ''y'' ''proj.ds.churn_3'' ''SELECT id, a, b FROM proj.ds.eval'',
              ''mlflow_model_'')]\<rparr>) \<and>
      columns loc = [''predicted_y''] \<and>
      id_column loc = ''id'' \<and>
      table loc = ''proj.tmp.anon7'' \<and>
      order loc = Some ''id''"
    by (simp add: example_eval_x_def example_job_def)
  with h1 h2 h3 h4 show ?thesis
    by blast
qed

text \<open>
  C7: on an instantiated adapter, when the training-diagnostics job completes with
  n rows, \<^verbatim>\<open>get_train_metrics\<close> returns n records in the order of the rows; the k-th
  record has the k-th row's \<^verbatim>\<open>iteration\<close> as its step, and its metrics have the four keys
  \<^verbatim>\<open>loss\<close>, \<^verbatim>\<open>eval_loss\<close>, \<^verbatim>\<open>duration_ms\<close> and \<^verbatim>\<open>learning_rate\<close>, each with the
  value of the k-th row's field of that name.
\<close>

theorem get_train_metrics_maps_rows:
  assumes "sql_model_path self = Some path"
    and "run_query_and_wait E w (train_metric_query path) job_id_prefix = (Inr job, w')"
  shows "\<exists>ms.
    get_train_metrics E self w = (Inr ms, self, w') \<and>
    length ms = length (result job) \<and>
    (\<forall>k<length (result job).
       step (ms ! k) = iteration (result job ! k) \<and>
       keys (metrics (ms ! k)) = [''loss'', ''eval_loss'', ''duration_ms'', ''learning_rate''] \<and>
       dict_get (metrics (ms ! k)) ''loss'' = Some (loss (result job ! k)) \<and>
       dict_get (metrics (ms ! k)) ''eval_loss'' = Some (eval_loss (result job ! k)) \<and>
       dict_get (metrics (ms ! k)) ''duration_ms'' = Some (duration_ms (result job ! k)) \<and>
       dict_get (metrics (ms ! k)) ''learning_rate'' = Some (learning_rate (result job ! k)))"
proof -
  let ?ms = "map (\<lambda>r. \<lparr>metrics = row_metric r, step = iteration r\<rparr>) (result job)"
  have "get_train_metrics E self w = (Inr (metrics_loop (result job) []), self, w')"
    using assms by (simp add: get_train_metrics_def)
  then have eq: "get_train_metrics E self w = (Inr ?ms, self, w')"
    by (simp add: metrics_loop_append)
  have len: "length ?ms = length (result job)"
    by simp
  have each: "\<forall>k<length (result job).
       step (?ms ! k) = iteration (result job ! k) \<and>
       keys (metrics (?ms ! k)) = [''loss'', ''eval_loss'', ''duration_ms'', ''learning_rate''] \<and>
       dict_get (metrics (?ms ! k)) ''loss'' = Some (loss (result job ! k)) \<and>
       dict_get (metrics (?ms ! k)) ''eval_loss'' = Some (eval_loss (result job ! k)) \<and>
       dict_get (metrics (?ms ! k)) ''duration_ms'' = Some (duration_ms (result job ! k)) \<and>
       dict_get (metrics (?ms ! k)) ''learning_rate'' = Some (learning_rate (result job ! k))"
    by (simp add: row_metric_def keys_def)
  from eq len each show ?thesis
    by blast
qed

theorem get_train_metrics_maps_rows_witness:
  "sql_model_path example_adapter = Some ''proj.ds.churn_3'' \<and>
   run_query_and_wait example_env example_warehouse (train_metric_query ''proj.ds.churn_3'')
     job_id_prefix =
     (Inr example_job,
      \<lparr>submitted = [(train_metric_query ''proj.ds.churn_3'', ''mlflow_model_'')]\<rparr>) \<and>
   (\<exists>ms.
      get_train_metrics example_env example_adapter example_warehouse =
        (Inr ms, example_adapter,
         \<lparr>submitted = [(train_metric_query ''proj.ds.churn_3'', ''mlflow_model_'')]\<rparr>) \<and>
      length ms = 2 \<and>
      step (ms ! 0) = PInt 0 \<and> step (ms ! 1) = PInt 1 \<and>
      dict_get (metrics (ms ! 0)) ''loss'' = Some (PFloat ''0.9'') \<and>
      dict_get (metrics (ms ! 1)) ''duration_ms'' = Some (PInt 900))"
proof -
  have h1: "sql_model_path example_adapter = Some ''proj.ds.churn_3''"
    by (simp add: example_adapter_def)
  have h2: "run_query_and_wait example_env example_warehouse (train_metric_query ''proj.ds.churn_3'')
     job_id_prefix =
     (Inr example_job,
      \<lparr>submitted = [(train_metric_query ''proj.ds.churn_3'', ''mlflow_model_'')]\<rparr>)"
    by (simp add: run_query_and_wait_def example_env_def example_warehouse_def job_id_prefix_def)
  have len: "length (result example_job) = 2"
    by (simp add: example_job_def example_rows_def)
  from get_train_metrics_maps_rows [OF h1 h2]
  obtain ms where eq: "get_train_metrics example_env example_adapter example_warehouse =
        (Inr ms, example_adapter,
         \<lparr>submitted = [(train_metric_query ''proj.ds.churn_3'', ''mlflow_model_'')]\<rparr>)"
    and n: "length ms = length (result example_job)"
    and each: "\<forall>k<length (result example_job).
       step (ms ! k) = iteration (result example_job ! k) \<and>
       keys (metrics (ms ! k)) = [''loss'', ''eval_loss'', ''duration_ms'', ''learning_rate''] \<and>
       dict_get (metrics (ms ! k)) ''loss'' = Some (loss (result example_job ! k)) \<and>
       dict_get (metrics (ms ! k)) ''eval_loss'' = Some (eval_loss (result example_job ! k)) \<and>
       dict_get (metrics (ms ! k)) ''duration_ms'' = Some (duration_ms (result example_job ! k)) \<and>
       dict_get (metrics (ms ! k)) ''learning_rate'' = Some (learning_rate (result example_job ! k))"
    by blast
  from each len have k0: "step (ms ! 0) = iteration (result example_job ! 0) \<and>
      dict_get (metrics (ms ! 0)) ''loss'' = Some (loss (result example_job ! 0))"
    by simp
  from each len have k1: "step (ms ! 1) = iteration (result example_job ! 1) \<and>
      dict_get (metrics (ms ! 1)) ''duration_ms'' = Some (duration_ms (result example_job ! 1))"
    by simp
  from k0 k1 n len have "length ms = 2 \<and>
      step (ms ! 0) = PInt 0 \<and> step (ms ! 1) = PInt 1 \<and>
      dict_get (metrics (ms ! 0)) ''loss'' = Some (PFloat ''0.9'') \<and>
      dict_get (metrics (ms ! 1)) ''duration_ms'' = Some (PInt 900)"
    by (simp add: example_job_def example_rows_def)
  with eq have "\<exists>ms.
      get_train_metrics example_env example_adapter example_warehouse =
        (Inr ms, example_adapter,
         \<lparr>submitted = [(train_metric_query ''proj.ds.churn_3'', ''mlflow_model_'')]\<rparr>) \<and>
      length ms = 2 \<and>
      step (ms ! 0) = PInt 0 \<and> step (ms ! 1) = PInt 1 \<and>
      dict_get (metrics (ms ! 0)) ''loss'' = Some (PFloat ''0.9'') \<and>
      dict_get (metrics (ms ! 1)) ''duration_ms'' = Some (PInt 900)"
    by blast
  with h1 h2 show ?thesis
    by blast
qed

text \<open>
  C8: for every adapter, warehouse and path, \<^verbatim>\<open>save\<close> and \<^verbatim>\<open>load\<close> return
  without an error, with the same adapter (every attribute as it was) and the same list of
  submitted jobs.
\<close>

theorem save_and_load_change_nothing:
  "save self w folder_path = (Inr (), self, w) \<and> load self w folder_path = (Inr (), self, w)"
  by (simp add: save_def load_def)

text \<open>
  C9: the job-id prefix is the text \<^verbatim>\<open>mlflow_model_\<close>, and whatever \<^verbatim>\<open>fit\<close>,
  \<^verbatim>\<open>predict\<close> and \<^verbatim>\<open>get_train_metrics\<close> add to the submitted jobs, in any state and
  whether they return or raise, carries that prefix.
\<close>

theorem every_job_has_fixed_prefix:
  "job_id_prefix = ''mlflow_model_'' \<and>
   (\<exists>qs. submitted (snd (snd (fit E self w train_x train_y eval_x eval_y))) =
          submitted w @ map (\<lambda>q. (q, ''mlflow_model_'')) qs) \<and>
   (\<exists>qs. submitted (snd (snd (predict E self w data))) =
          submitted w @ map (\<lambda>q. (q, ''mlflow_model_'')) qs) \<and>
   (\<exists>qs. submitted (snd (snd (get_train_metrics E self w))) =
          submitted w @ map (\<lambda>q. (q, ''mlflow_model_'')) qs)"
  using fit_submits [of E self w train_x train_y eval_x eval_y]
    predict_submits [of E self w data] get_train_metrics_submits [of E self w]
  by (simp only: job_id_prefix_def simp_thms)

text \<open>
  C10: \<^verbatim>\<open>fit\<close> reads only the columns of \<open>train_y\<close> and \<open>eval_y\<close>: label
  locations with the same columns and any other table, identifier, ordering or limit give
  the same outcome, adapter and statement; and the sub-queries are the select statements
  of \<open>train_x\<close> and of \<open>eval_x\<close> with only their column lists extended by the labels.
\<close>

theorem fit_reads_only_columns_of_labels:
  assumes "kwargs self = Some kw" and "sql_model_path self = Some path"
    and "columns train_y' = columns train_y" and "columns eval_y' = columns eval_y"
  shows "fit E self w train_x train_y' eval_x eval_y' = fit E self w train_x train_y eval_x eval_y \<and>
    (\<exists>r self' options.
       fit E self w train_x train_y eval_x eval_y =
         (r, self',
          w\<lparr>submitted := submitted w @
             [(create_model_query path options
                 (get_select_query E (train_x\<lparr>columns := columns train_x @ columns train_y\<rparr>) False)
                 (get_select_query E (eval_x\<lparr>columns := columns eval_x @ columns eval_y\<rparr>) False),
               job_id_prefix)]\<rparr>))"
proof -
  have same: "fit E self w train_x train_y' eval_x eval_y' =
      fit E self w train_x train_y eval_x eval_y"
    unfolding fit_def assms(3) assms(4) by (rule refl)
  have t: "BigQueryLocation (columns train_x @ columns train_y) (id_column train_x)
             (table train_x) (order train_x) (limit train_x) =
           train_x\<lparr>columns := columns train_x @ columns train_y\<rparr>"
    by (simp add: BigQueryLocation_def)
  have e: "BigQueryLocation (columns eval_x @ columns eval_y) (id_column eval_x)
             (table eval_x) (order eval_x) (limit eval_x) =
           eval_x\<lparr>columns := columns eval_x @ columns eval_y\<rparr>"
    by (simp add: BigQueryLocation_def)
  from fit_instantiated [OF assms(1,2), of E w train_x train_y eval_x eval_y]
  have "\<exists>r self' options.
       fit E self w train_x train_y eval_x eval_y =
         (r, self',
          w\<lparr>submitted := submitted w @
             [(create_model_query path options
                 (get_select_query E (train_x\<lparr>columns := columns train_x @ columns train_y\<rparr>) False)
                 (get_select_query E (eval_x\<lparr>columns := columns eval_x @ columns eval_y\<rparr>) False),
               job_id_prefix)]\<rparr>)"
    unfolding t e by blast
  with same show ?thesis
    by blast
qed

theorem fit_reads_only_columns_of_labels_witness:
  "kwargs example_adapter = Some example_options \<and>
   sql_model_path example_adapter = Some ''proj.ds.churn_3'' \<and>
   columns (example_train_y\<lparr>table := ''other.labels'', limit := Some 5\<rparr>) = columns example_train_y \<and>
   columns (example_eval_y\<lparr>id_column := ''key'', order := None\<rparr>) = columns example_eval_y \<and>
   fit example_env example_adapter example_warehouse example_train_x
       (example_train_y\<lparr>table := ''other.labels'', limit := Some 5\<rparr>) example_eval_x
       (example_eval_y\<lparr>id_column := ''key'', order := None\<rparr>) =
     fit example_env example_adapter example_warehouse example_train_x example_train_y
       example_eval_x example_eval_y"
proof -
  have h1: "kwargs example_adapter = Some example_options"
    by (simp add: example_adapter_def)
  have h2: "sql_model_path example_adapter = Some ''proj.ds.churn_3''"
    by (simp add: example_adapter_def)
  have h3: "columns (example_train_y\<lparr>table := ''other.labels'', limit := Some 5\<rparr>) =
      columns example_train_y"
    by simp
  have h4: "columns (example_eval_y\<lparr>id_column := ''key'', order := None\<rparr>) = columns example_eval_y"
    by simp
  from fit_reads_only_columns_of_labels [OF h1 h2 h3 h4]
  have "fit example_env example_adapter example_warehouse example_train_x
       (example_train_y\<lparr>table := ''other.labels'', limit := Some 5\<rparr>) example_eval_x
       (example_eval_y\<lparr>id_column := ''key'', order := None\<rparr>) =
     fit example_env example_adapter example_warehouse example_train_x example_train_y
       example_eval_x example_eval_y"
    by (rule conjunct1)
  with h1 h2 h3 h4 show ?thesis
    by blast
qed

end
